theory Spec2Isabelle
  imports Main "HOL-Library.Sublist"
begin

section \<open>Python strings\<close>

text \<open>
  Strings are character lists. The source only uses a handful of string operations:
  the substring test \<^verbatim>\<open>sub in s\<close>, \<^verbatim>\<open>s.split(sep)\<close> with a literal
  non-empty separator, \<^verbatim>\<open>s.replace(old, new)\<close> and indexing of the list that
  \<^verbatim>\<open>split\<close> returns.
\<close>

fun contains :: "string \<Rightarrow> string \<Rightarrow> bool" where
  "contains sub [] = (sub = [])"
| "contains sub (c # cs) = (prefix sub (c # cs) \<or> contains sub cs)"

text \<open>
  \<^verbatim>\<open>s.split(sep)\<close>: the pieces between the non-overlapping occurrences of the
  separator, found from the left. Python raises on an empty separator; every call
  in the source passes a literal of one to three characters.
\<close>

function py_split :: "string \<Rightarrow> string \<Rightarrow> string list" where
  "py_split sep [] = [[]]"
| "py_split sep (c # cs) =
     (if sep \<noteq> [] \<and> prefix sep (c # cs)
      then [] # py_split sep (drop (length sep) (c # cs))
      else (case py_split sep cs of
              [] \<Rightarrow> [[c]]
            | p # ps \<Rightarrow> (c # p) # ps))"
  by pat_completeness auto
termination
  by (relation "measure (\<lambda>(sep, s). length s)") (auto simp: neq_Nil_conv)

fun py_join :: "string \<Rightarrow> string list \<Rightarrow> string" where
  "py_join sep [] = []"
| "py_join sep [x] = x"
| "py_join sep (x # y # ys) = x @ sep @ py_join sep (y # ys)"

definition py_replace :: "string \<Rightarrow> string \<Rightarrow> string \<Rightarrow> string" where
  "py_replace old new s = py_join new (py_split old s)"

text \<open>List indexing that raises IndexError out of range: \<open>None\<close> is the raise.\<close>

fun nth_opt :: "'a list \<Rightarrow> nat \<Rightarrow> 'a option" where
  "nth_opt [] n = None"
| "nth_opt (x # xs) 0 = Some x"
| "nth_opt (x # xs) (Suc n) = nth_opt xs n"

text \<open>Decimal digits of a number, as \<^verbatim>\<open>str\<close> prints an \<^verbatim>\<open>int\<close>.\<close>

function dec_nat :: "nat \<Rightarrow> string" where
  "dec_nat n =
     (if n < 10 then [char_of (48 + n)]
      else dec_nat (n div 10) @ [char_of (48 + n mod 10)])"
  by pat_completeness auto
termination
  by (relation "measure id") auto

declare dec_nat.simps [simp del]

definition dec_int :: "int \<Rightarrow> string" where
  "dec_int i = (if i < 0 then CHR ''-'' # dec_nat (nat (- i)) else dec_nat (nat i))"

definition quoted :: "string \<Rightarrow> string" where
  "quoted s = CHR 0x27 # s @ [CHR 0x27]"


section \<open>JSON values as Python objects\<close>

text \<open>
  What \<^verbatim>\<open>resp.json()\<close> returns: \<^verbatim>\<open>None\<close>, a bool, an int, a str, a list or a
  dict with string keys. A dict is the list of its items, so its keys are distinct.
  Numbers are integers (the only number of the two endpoints is the post id).
\<close>

datatype json =
    JNull
  | JBool bool
  | JInt int
  | JStr string
  | JArr "json list"
  | JObj "(string \<times> json) list"

text \<open>Python truth value, as tested by \<^verbatim>\<open>if x:\<close> and \<^verbatim>\<open>not x\<close>.\<close>

fun truthy :: "json \<Rightarrow> bool" where
  "truthy JNull = False"
| "truthy (JBool b) = b"
| "truthy (JInt i) = (i \<noteq> 0)"
| "truthy (JStr s) = (s \<noteq> [])"
| "truthy (JArr xs) = (xs \<noteq> [])"
| "truthy (JObj kvs) = (kvs \<noteq> [])"

fun type_name :: "json \<Rightarrow> string" where
  "type_name JNull = ''NoneType''"
| "type_name (JBool b) = ''bool''"
| "type_name (JInt i) = ''int''"
| "type_name (JStr s) = ''str''"
| "type_name (JArr xs) = ''list''"
| "type_name (JObj kvs) = ''dict''"

definition no_attribute :: "json \<Rightarrow> string \<Rightarrow> string" where
  "no_attribute v a = quoted (type_name v) @ '' object has no attribute '' @ quoted a"

text \<open>
  Exceptions are carried as the text \<^verbatim>\<open>str(e)\<close> gives, the only thing the source
  does with them: \<open>Inl msg\<close> is a raise.

  \<^verbatim>\<open>v.get(k, default)\<close>: only a dict has the method.
\<close>

fun py_get :: "json \<Rightarrow> string \<Rightarrow> json \<Rightarrow> string + json" where
  "py_get (JObj kvs) k d = Inr (case map_of kvs k of None \<Rightarrow> d | Some v \<Rightarrow> v)"
| "py_get v k d = Inl (no_attribute v ''get'')"

text \<open>\<^verbatim>\<open>v[0]\<close>. A dict has no key \<^verbatim>\<open>0\<close> (its keys are strings): KeyError(0).\<close>

fun py_index0 :: "json \<Rightarrow> string + json" where
  "py_index0 (JArr []) = Inl ''list index out of range''"
| "py_index0 (JArr (x # xs)) = Inr x"
| "py_index0 (JStr []) = Inl ''string index out of range''"
| "py_index0 (JStr (c # cs)) = Inr (JStr [c])"
| "py_index0 (JObj kvs) = Inl ''0''"
| "py_index0 v = Inl (quoted (type_name v) @ '' object is not subscriptable'')"

text \<open>\<^verbatim>\<open>for c in v\<close>: the elements of a list, the characters of a str, the keys of a dict.\<close>

fun py_iter :: "json \<Rightarrow> string + json list" where
  "py_iter (JArr xs) = Inr xs"
| "py_iter (JStr s) = Inr (map (\<lambda>c. JStr [c]) s)"
| "py_iter (JObj kvs) = Inr (map (\<lambda>kv. JStr (fst kv)) kvs)"
| "py_iter v = Inl (quoted (type_name v) @ '' object is not iterable'')"


section \<open>The libraries the script calls\<close>

text \<open>
  A response of \<^verbatim>\<open>requests.get\<close>: its status code and what \<^verbatim>\<open>.json()\<close> does, which
  is to return the decoded body or to raise.
\<close>

record response =
  status_code :: int
  json_body :: "string + json"

text \<open>
  The behaviour of the network and of the library functions that is not fixed by
  the script:
  \<^item> \<open>http_get\<close>: \<^verbatim>\<open>requests.get(url, headers=...)\<close>, a response or a raise;
  \<^item> \<open>py_repr\<close>: how \<^verbatim>\<open>str\<close> prints a list or a dict;
  \<^item> \<open>iso_other\<close>: what \<^verbatim>\<open>datetime.fromisoformat\<close> does with a string outside the
    format fixed below (the set of accepted strings grew with the Python version),
    a date (year, month, day) or the text of the ValueError.
\<close>

record pylib =
  http_get :: "string \<Rightarrow> string + response"
  py_repr :: "json \<Rightarrow> string"
  iso_other :: "string \<Rightarrow> string + (nat \<times> nat \<times> nat)"

text \<open>\<^verbatim>\<open>str(v)\<close>, which is what an f-string field \<^verbatim>\<open>{v}\<close> inserts.\<close>

fun py_str :: "pylib \<Rightarrow> json \<Rightarrow> string" where
  "py_str lib JNull = ''None''"
| "py_str lib (JBool b) = (if b then ''True'' else ''False'')"
| "py_str lib (JInt i) = dec_int i"
| "py_str lib (JStr s) = s"
| "py_str lib v = py_repr lib v"

definition bind_exn :: "'e + 'a \<Rightarrow> ('a \<Rightarrow> 'e + 'b) \<Rightarrow> 'e + 'b" where
  "bind_exn m f = (case m of Inl e \<Rightarrow> Inl e | Inr x \<Rightarrow> f x)"


subsection \<open>Dates\<close>

definition is_digit :: "char \<Rightarrow> bool" where
  "is_digit c = (48 \<le> (of_char c :: nat) \<and> (of_char c :: nat) \<le> 57)"

definition digits_val :: "string \<Rightarrow> nat option" where
  "digits_val s =
     (if s \<noteq> [] \<and> list_all is_digit s
      then Some (foldl (\<lambda>a c. 10 * a + (of_char c - 48)) 0 s)
      else None)"

definition leap_year :: "nat \<Rightarrow> bool" where
  "leap_year y = (y mod 4 = 0 \<and> (y mod 100 \<noteq> 0 \<or> y mod 400 = 0))"

definition days_in_month :: "nat \<Rightarrow> nat \<Rightarrow> nat" where
  "days_in_month y m =
     (if m = 2 then (if leap_year y then 29 else 28)
      else if m \<in> {4, 6, 9, 11} then 30 else 31)"

text \<open>\<^verbatim>\<open>YYYY-MM-DD\<close>, a date of the calendar (years 1 to 9999).\<close>

definition iso_date :: "string \<Rightarrow> (nat \<times> nat \<times> nat) option" where
  "iso_date s =
     (if length s = 10 \<and> s ! 4 = CHR ''-'' \<and> s ! 7 = CHR ''-'' then
        (case (digits_val (take 4 s), digits_val (take 2 (drop 5 s)), digits_val (drop 8 s)) of
           (Some y, Some m, Some d) \<Rightarrow>
             if 1 \<le> y \<and> 1 \<le> m \<and> m \<le> 12 \<and> 1 \<le> d \<and> d \<le> days_in_month y m
             then Some (y, m, d) else None
         | _ \<Rightarrow> None)
      else None)"

text \<open>\<^verbatim>\<open>HH:MM:SS\<close>, then an optional fraction of 3 or 6 digits.\<close>

definition iso_clock :: "string \<Rightarrow> bool" where
  "iso_clock s =
     (8 \<le> length s \<and> s ! 2 = CHR '':'' \<and> s ! 5 = CHR '':'' \<and>
      (case (digits_val (take 2 s), digits_val (take 2 (drop 3 s)), digits_val (take 2 (drop 6 s))) of
         (Some h, Some m, Some sec) \<Rightarrow> h < 24 \<and> m < 60 \<and> sec < 60
       | _ \<Rightarrow> False) \<and>
      (length s = 8 \<or>
       (s ! 8 = CHR ''.'' \<and> (length s = 12 \<or> length s = 15) \<and> list_all is_digit (drop 9 s))))"

text \<open>The offset \<^verbatim>\<open>+HH:MM\<close> or \<^verbatim>\<open>-HH:MM\<close>, less than a day.\<close>

definition iso_offset :: "string \<Rightarrow> bool" where
  "iso_offset s =
     (length s = 6 \<and> (s ! 0 = CHR ''+'' \<or> s ! 0 = CHR ''-'') \<and> s ! 3 = CHR '':'' \<and>
      (case (digits_val (take 2 (drop 1 s)), digits_val (drop 4 s)) of
         (Some h, Some m) \<Rightarrow> h < 24 \<and> m < 60
       | _ \<Rightarrow> False))"

definition iso_time :: "string \<Rightarrow> bool" where
  "iso_time s =
     (let clock = takeWhile (\<lambda>c. c \<noteq> CHR ''+'' \<and> c \<noteq> CHR ''-'') s;
          offset = dropWhile (\<lambda>c. c \<noteq> CHR ''+'' \<and> c \<noteq> CHR ''-'') s
      in iso_clock clock \<and> (offset = [] \<or> iso_offset offset))"

text \<open>
  \<^verbatim>\<open>datetime.fromisoformat(s)\<close>, of which the script keeps the date only. Every
  Python version that has the function accepts \<^verbatim>\<open>YYYY-MM-DD\<close> alone or followed by
  one separator character and \<^verbatim>\<open>HH:MM:SS[.fff[fff]][+HH:MM]\<close>; all other strings are
  left to \<open>iso_other\<close>.
\<close>

definition fromisoformat :: "pylib \<Rightarrow> string \<Rightarrow> string + (nat \<times> nat \<times> nat)" where
  "fromisoformat lib s =
     (case iso_date (take 10 s) of
        Some d \<Rightarrow>
          if length s = 10 \<or> (11 < length s \<and> iso_time (drop 11 s)) then Inr d
          else iso_other lib s
      | None \<Rightarrow> iso_other lib s)"

definition month_name :: "nat \<Rightarrow> string" where
  "month_name m =
     (if m = 1 then ''January'' else if m = 2 then ''February''
      else if m = 3 then ''March'' else if m = 4 then ''April''
      else if m = 5 then ''May'' else if m = 6 then ''June''
      else if m = 7 then ''July'' else if m = 8 then ''August''
      else if m = 9 then ''September'' else if m = 10 then ''October''
      else if m = 11 then ''November'' else ''December'')"

text \<open>
  \<^verbatim>\<open>strftime("%B %d, %Y")\<close> in the C locale: the month's English name, the day in
  two digits, the year in decimal.
\<close>

definition strftime_B_d_Y :: "nat \<times> nat \<times> nat \<Rightarrow> string" where
  "strftime_B_d_Y ymd =
     (case ymd of (y, m, d) \<Rightarrow>
        month_name m @ '' '' @ (if d < 10 then ''0'' else []) @ dec_nat d @ '', '' @ dec_nat y)"


section \<open>The fetcher\<close>

text \<open>\<^verbatim>\<open>extract_slug\<close>; \<open>None\<close> is Python's \<^verbatim>\<open>None\<close>, also returned by the \<^verbatim>\<open>except\<close>.\<close>

definition extract_slug :: "string \<Rightarrow> string option" where
  "extract_slug url =
     (if contains ''/p/'' url then
        (case nth_opt (py_split ''/p/'' url) (Suc 0) of
           None \<Rightarrow> None
         | Some a \<Rightarrow>
             (case nth_opt (py_split ''/'' a) 0 of
                None \<Rightarrow> None
              | Some b \<Rightarrow> nth_opt (py_split ''?'' b) 0))
      else None)"

text \<open>\<^verbatim>\<open>url.split("//")[1].split("/")[0]\<close>; \<open>None\<close> is the IndexError the script catches.\<close>

definition extract_domain :: "string \<Rightarrow> string option" where
  "extract_domain url =
     (case nth_opt (py_split ''//'' url) (Suc 0) of
        None \<Rightarrow> None
      | Some a \<Rightarrow> nth_opt (py_split ''/'' a) 0)"

text \<open>
  The dictionary the fetcher returns. Title, author and body are whatever the
  response holds under their keys; the other fields are strings by construction.
\<close>

record article =
  title :: json
  author :: json
  date :: string
  body :: json
  comments :: "string list"
  url :: string
  domain :: string

text \<open>The locals \<^verbatim>\<open>post_id, title, author, date_str, body_html\<close> after line 53.\<close>

record post =
  post_id :: json
  post_title :: json
  post_author :: json
  post_date :: string
  post_body :: json

definition date_str_of :: "pylib \<Rightarrow> json \<Rightarrow> string + string" where
  "date_str_of lib date_iso =
     (if truthy date_iso then
        (case date_iso of
           JStr s \<Rightarrow>
             bind_exn (fromisoformat lib (py_replace ''Z'' ''+00:00'' s))
               (\<lambda>ymd. Inr (strftime_B_d_Y ymd))
         | _ \<Rightarrow> Inl (no_attribute date_iso ''replace''))
      else Inr ''Undated'')"

definition parse_post :: "pylib \<Rightarrow> json \<Rightarrow> string + post" where
  "parse_post lib data =
     bind_exn (py_get data ''id'' JNull) (\<lambda>pid.
     bind_exn (py_get data ''title'' (JStr ''Untitled'')) (\<lambda>t.
     bind_exn (py_get data ''publishedBylines'' (JArr [JObj []])) (\<lambda>bylines.
     bind_exn (py_index0 bylines) (\<lambda>byline.
     bind_exn (py_get byline ''name'' (JStr ''Unknown Author'')) (\<lambda>a.
     bind_exn (py_get data ''post_date'' JNull) (\<lambda>date_iso.
     bind_exn (date_str_of lib date_iso) (\<lambda>ds.
     bind_exn (py_get data ''body_html'' (JStr [])) (\<lambda>b.
       Inr \<lparr>post_id = pid, post_title = t, post_author = a,
            post_date = ds, post_body = b\<rparr>))))))))"

definition format_comment :: "pylib \<Rightarrow> json \<Rightarrow> json \<Rightarrow> string" where
  "format_comment lib c_user c_body =
     ''<b>'' @ py_str lib c_user @ '':</b> '' @ py_str lib c_body"

text \<open>The loop of lines 63 to 68, \<open>acc\<close> being the list \<^verbatim>\<open>comments\<close>.\<close>

fun collect_comments :: "pylib \<Rightarrow> json list \<Rightarrow> string list \<Rightarrow> string + string list" where
  "collect_comments lib [] acc = Inr acc"
| "collect_comments lib (c # cs) acc =
     bind_exn (py_get c ''body'' (JStr [])) (\<lambda>c_body.
     bind_exn (py_get c ''name'' (JStr ''Anonymous'')) (\<lambda>c_user.
       collect_comments lib cs
         (if truthy c_body then acc @ [format_comment lib c_user c_body] else acc)))"

definition comment_url :: "pylib \<Rightarrow> string \<Rightarrow> json \<Rightarrow> string" where
  "comment_url lib host pid =
     ''https://'' @ host @ ''/api/v1/posts/'' @ py_str lib pid @ ''/comments?sort=newest''"

text \<open>Lines 56 to 68.\<close>

definition fetch_comments :: "pylib \<Rightarrow> string \<Rightarrow> json \<Rightarrow> string + string list" where
  "fetch_comments lib host pid =
     (if truthy pid then
        bind_exn (http_get lib (comment_url lib host pid)) (\<lambda>c_resp.
          if status_code c_resp = 200 then
            bind_exn (json_body c_resp) (\<lambda>c_data.
            bind_exn (py_get c_data ''comments'' (JArr [])) (\<lambda>cl.
            bind_exn (py_iter cl) (\<lambda>cs.
              collect_comments lib cs [])))
          else Inr [])
      else Inr [])"

definition api_url :: "string \<Rightarrow> string \<Rightarrow> string" where
  "api_url host slug = ''https://'' @ host @ ''/api/v1/posts/'' @ slug"

text \<open>
  The body of the \<^verbatim>\<open>try\<close> of lines 42 to 78: \<open>Inl\<close> is a raise, and the early
  return of line 45 is the first component of the result.
\<close>

definition fetch_try :: "pylib \<Rightarrow> string \<Rightarrow> string \<Rightarrow> string \<Rightarrow>
    string + (article option \<times> string option)" where
  "fetch_try lib u host slug =
     bind_exn (http_get lib (api_url host slug)) (\<lambda>resp.
       if status_code resp \<noteq> 200
       then Inr (None, Some (''API Error: '' @ dec_int (status_code resp)))
       else
         bind_exn (json_body resp) (\<lambda>data.
         bind_exn (parse_post lib data) (\<lambda>p.
         bind_exn (fetch_comments lib host (post_id p)) (\<lambda>cs.
           Inr (Some \<lparr>title = post_title p, author = post_author p,
                      date = post_date p, body = post_body p, comments = cs,
                      url = u, domain = host\<rparr>, None)))))"

definition invalid_url_message :: string where
  "invalid_url_message = ''Invalid Substack URL. Must contain '/p/'.''"

definition get_substack_api_data :: "pylib \<Rightarrow> string \<Rightarrow> article option \<times> string option" where
  "get_substack_api_data lib u =
     (case extract_slug u of
        None \<Rightarrow> (None, Some invalid_url_message)
      | Some slug \<Rightarrow>
          if slug = [] then (None, Some invalid_url_message)
          else
            (case extract_domain u of
               None \<Rightarrow> (None, Some ''Could not parse domain.'')
             | Some host \<Rightarrow>
                 (case fetch_try lib u host slug of
                    Inl e \<Rightarrow> (None, Some e)
                  | Inr r \<Rightarrow> r)))"


section \<open>Example inputs\<close>

text \<open>
  The scenario of the specification: the post \<^verbatim>\<open>hello\<close> of \<^verbatim>\<open>x.substack.com\<close> with
  one comment. Every other request fails to connect.
\<close>

definition hello_url :: string where
  "hello_url = ''https://x.substack.com/p/hello''"

definition hello_post :: json where
  "hello_post =
     JObj [(''id'', JInt 1), (''title'', JStr ''Hello''),
           (''publishedBylines'', JArr [JObj [(''name'', JStr ''A'')]]),
           (''post_date'', JStr ''2024-01-01T00:00:00Z''),
           (''body_html'', JStr ''<p>hi</p>'')]"

definition hello_comments :: json where
  "hello_comments =
     JObj [(''comments'', JArr [JObj [(''name'', JStr ''B''), (''body'', JStr ''nice'')]])]"

definition hello_lib :: pylib where
  "hello_lib =
     \<lparr>http_get = (\<lambda>u.
        if u = ''https://x.substack.com/api/v1/posts/hello''
        then Inr \<lparr>status_code = 200, json_body = Inr hello_post\<rparr>
        else if u = ''https://x.substack.com/api/v1/posts/1/comments?sort=newest''
        then Inr \<lparr>status_code = 200, json_body = Inr hello_comments\<rparr>
        else Inl ''connection refused''),
      py_repr = (\<lambda>v. ''[...]''),
      iso_other = (\<lambda>s. Inl (''Invalid isoformat string: '' @ quoted s))\<rparr>"


section \<open>Properties of the fetcher\<close>

text \<open>
  C4: for every URL that does not contain the marker \<^verbatim>\<open>/p/\<close>, whatever the network
  does, the fetch returns no record and the input error message.
\<close>

theorem fetch_without_marker:
  "\<not> contains ''/p/'' u \<Longrightarrow>
     get_substack_api_data lib u =
       (None, Some ''Invalid Substack URL. Must contain '/p/'.'')"
  by (simp add: get_substack_api_data_def extract_slug_def invalid_url_message_def)

theorem fetch_without_marker_witness:
  "\<not> contains ''/p/'' ''https://x.substack.com/about'' \<and>
   get_substack_api_data hello_lib ''https://x.substack.com/about'' =
     (None, Some ''Invalid Substack URL. Must contain '/p/'.'')"
  using fetch_without_marker [of "''https://x.substack.com/about''" hello_lib]
  by simp

end
